theory Spec2Isabelle
  imports Complex_Main
begin

section \<open>The hook forwarder (session_hook_forwarder.cjs)\<close>

text \<open>
  The forwarder is a script: it parses its port argument, installs two handlers on
  standard input and, at end of input, hands one request to the HTTP client. Its
  observable behaviour is the sequence of actions it performs. Byte buffers and
  JavaScript strings are both \<open>string\<close>; a \<open>char\<close> is one byte of a buffer, and one
  code unit below 256 of a JavaScript string.
\<close>

subsection \<open>The runtime's \<open>parseInt(s, 10)\<close>\<close>

text \<open>
  ECMAScript's \<open>parseInt\<close> with radix 10: leading white space is skipped, one sign is
  read, and the longest run of decimal digits that follows is the value; when that run
  is empty the result is NaN, which is \<open>None\<close> here. The value is kept as an exact
  integer: it is zero exactly when the JavaScript number is \<open>0\<close> or \<open>-0\<close>, and equals the
  JavaScript number below \<open>2 ^ 53\<close>. A missing argument is \<open>undefined\<close>, which
  \<open>parseInt\<close> reads as the text \<open>undefined\<close>, and that has no digit.
\<close>

definition isWhiteSpace :: "char \<Rightarrow> bool" where
  "isWhiteSpace c = (of_char c \<in> {9, 10, 11, 12, 13, 32, 160 :: nat})"

definition isDigit :: "char \<Rightarrow> bool" where
  "isDigit c = (48 \<le> (of_char c :: nat) \<and> (of_char c :: nat) \<le> 57)"

definition digitsValue :: "string \<Rightarrow> nat" where
  "digitsValue ds = foldl (\<lambda>acc c. 10 * acc + (of_char c - 48)) 0 ds"

definition parseIntText :: "string \<Rightarrow> int option" where
  "parseIntText s =
     (let t = dropWhile isWhiteSpace s;
          neg = (case t of [] \<Rightarrow> False | c # _ \<Rightarrow> c = CHR ''-'');
          u = (case t of [] \<Rightarrow> [] | c # r \<Rightarrow> if c = CHR ''-'' \<or> c = CHR ''+'' then r else t);
          ds = takeWhile isDigit u
      in if ds = [] then None
         else Some (if neg then - int (digitsValue ds) else int (digitsValue ds)))"

definition parseInt :: "string option \<Rightarrow> int option" where
  "parseInt arg = (case arg of None \<Rightarrow> None | Some s \<Rightarrow> parseIntText s)"

subsection \<open>The script\<close>

text \<open>\<open>process.argv[i]\<close>: \<open>undefined\<close> past the end of the argument vector.\<close>

definition argv_at :: "string list \<Rightarrow> nat \<Rightarrow> string option" where
  "argv_at argv i = (if i < length argv then Some (argv ! i) else None)"

text \<open>The options object and body handed to \<open>http.request\<close> / \<open>req.end\<close>.\<close>

record request_options =
  host :: string
  port :: int
  http_method :: string
  path :: string
  content_type :: string
  content_length :: nat

datatype action =
    Exit nat
  | StdinData string
  | HttpRequest request_options string

text \<open>
  \<open>argv\<close> is the whole \<open>process.argv\<close> (the interpreter, the script, then the
  arguments); \<open>stdin\<close> is the list of chunks standard input delivers before it ends.
  \<open>!port\<close> holds for NaN and for zero, so the guard \<open>!port || isNaN(port)\<close> exits in
  exactly these two cases, before either handler on standard input is installed.
  \<open>process.argv[3] || 'session-start'\<close> takes the default for a missing and for an
  empty argument.
\<close>

definition eventType :: "string list \<Rightarrow> string" where
  "eventType argv =
     (case argv_at argv 3 of
        None \<Rightarrow> ''session-start''
      | Some e \<Rightarrow> if e = [] then ''session-start'' else e)"

text \<open>
  Node's \<open>http.request\<close> checks the path before anything else: a path holding a code
  unit outside U+0021 to U+00FF (a space or a control character, among the code units
  a \<open>char\<close> can be) makes it throw \<open>ERR_UNESCAPED_CHARACTERS\<close>.
\<close>

definition pathAccepted :: "string \<Rightarrow> bool" where
  "pathAccepted p = list_all (\<lambda>c. 33 \<le> (of_char c :: nat)) p"

text \<open>
  When \<open>http.request\<close> throws, inside the \<open>end\<close> handler, nothing catches the
  exception: \<open>req.end(body)\<close> is not reached and the process ends with status 1.
\<close>

definition forwarder :: "string list \<Rightarrow> string list \<Rightarrow> action list" where
  "forwarder argv stdin =
     (case parseInt (argv_at argv 2) of
        None \<Rightarrow> [Exit 1]
      | Some p \<Rightarrow>
          if p = 0 then [Exit 1]
          else
            (let body = concat stdin
             in if pathAccepted (''/hook/'' @ eventType argv)
                then map StdinData stdin @
                  [HttpRequest
                     \<lparr> host = ''127.0.0.1'',
                       port = p,
                       http_method = ''POST'',
                       path = ''/hook/'' @ eventType argv,
                       content_type = ''application/json'',
                       content_length = length body \<rparr>
                     body]
                else map StdinData stdin @ [Exit 1]))"

definition isHttpRequest :: "action \<Rightarrow> bool" where
  "isHttpRequest a = (case a of HttpRequest _ _ \<Rightarrow> True | _ \<Rightarrow> False)"


section \<open>The notification server (startHookServer)\<close>

subsection \<open>JavaScript values\<close>

text \<open>
  The values \<open>JSON.parse\<close> can return, and \<open>undefined\<close>, which reading an absent
  property gives. A number is the rational it denotes (so \<open>-0\<close> is \<open>0\<close>) or an
  infinity, which \<open>JSON.parse\<close> returns for a literal such as \<open>1e999\<close>. An object is
  the list of its own properties, each key once.
\<close>

datatype jsnumber = Finite rat | PlusInfinity | MinusInfinity

datatype jsval =
    JUndefined
  | JNull
  | JBool bool
  | JNumber jsnumber
  | JString string
  | JArray "jsval list"
  | JObject "(string \<times> jsval) list"

text \<open>ToBoolean, which \<open>||\<close> and \<open>if\<close> apply to their operand.\<close>

fun truthy :: "jsval \<Rightarrow> bool" where
  "truthy JUndefined = False"
| "truthy JNull = False"
| "truthy (JBool b) = b"
| "truthy (JNumber n) = (n \<noteq> Finite 0)"
| "truthy (JString s) = (s \<noteq> [])"
| "truthy (JArray _) = True"
| "truthy (JObject _) = True"

text \<open>
  The exceptions: a TypeError of the language, Node's error for a second response, and
  whatever a callback or a failing request stream throws.
\<close>

datatype exn = TypeError | ERR_HTTP_HEADERS_SENT | Thrown

text \<open>
  The property read \<open>v.k\<close> for a key that no prototype defines (\<open>session_id\<close> and
  \<open>sessionId\<close> are such keys): a TypeError on \<open>null\<close> and \<open>undefined\<close>, the own property
  of an object, and \<open>undefined\<close> in every other case.
\<close>

definition ownProperty :: "(string \<times> jsval) list \<Rightarrow> string \<Rightarrow> jsval" where
  "ownProperty kvs k = (case map_of kvs k of None \<Rightarrow> JUndefined | Some x \<Rightarrow> x)"

definition getProp :: "jsval \<Rightarrow> string \<Rightarrow> exn + jsval" where
  "getProp v k =
     (case v of
        JUndefined \<Rightarrow> Inl TypeError
      | JNull \<Rightarrow> Inl TypeError
      | JObject kvs \<Rightarrow> Inr (ownProperty kvs k)
      | _ \<Rightarrow> Inr JUndefined)"

text \<open>
  The template literal of the log line \<open>`... session ID: ${sessionId}`\<close> converts the
  identifier to a string, and that conversion can throw a TypeError. A parsed object is
  converted by \<open>Object.prototype.toString\<close> unless it has an own property \<open>toString\<close>,
  which, coming from JSON, is never callable; then neither it nor \<open>valueOf\<close> yields a
  primitive. An array is joined, which converts each element other than \<open>null\<close>.
  Every other value converts.
\<close>

fun toStringThrows :: "jsval \<Rightarrow> bool" where
  "toStringThrows (JObject kvs) = (map_of kvs ''toString'' \<noteq> None)"
| "toStringThrows (JArray xs) = (\<exists>x \<in> set xs. toStringThrows x)"
| "toStringThrows _ = False"

subsection \<open>Callbacks, requests and the state of one request\<close>

text \<open>
  A callback either returns or throws. \<open>HookServerOptions\<close> declares \<open>onSessionHook\<close>
  without \<open>?\<close> and the two others with it; the compiled code checks none of this, so
  each slot may hold \<open>undefined\<close>, which is \<open>None\<close>.
\<close>

datatype outcome = Returns | Throws

record callbacks =
  onSessionHook :: "(jsval \<Rightarrow> jsval \<Rightarrow> outcome) option"
  onThinkingStart :: "(unit \<Rightarrow> outcome) option"
  onThinkingStop :: "(unit \<Rightarrow> outcome) option"

datatype call = SessionHook jsval jsval | ThinkingStart | ThinkingStop

text \<open>
  What happens to one request after the handler has started, in the order it happens:
  the request stream delivers a chunk, ends or fails, or the 5-second timer of the
  session-start route fires.
\<close>

datatype event = Chunk string | EndOfBody | StreamError | TimerFired

record request =
  req_method :: string
  url :: string
  events :: "event list"

datatype route = UserPromptSubmit | Stop | SessionStart | NotFound

datatype phase = Reading | Finished

text \<open>
  \<open>timer\<close>: the timeout is set and has neither fired nor been cleared. \<open>chunks\<close>: the
  array the session-start route collects. \<open>drained\<close>: how many chunks a \<open>for await\<close>
  loop has taken from the request. \<open>responses\<close>: the status and text of every response
  written. \<open>calls\<close>: the callbacks invoked. \<open>uncaught\<close>: an exception that left the
  handler or the timer callback.
\<close>

record handler_state =
  phase :: phase
  timer :: bool
  chunks :: "string list"
  drained :: nat
  headersSent :: bool
  responses :: "(nat \<times> string) list"
  calls :: "call list"
  uncaught :: "exn option"

subsection \<open>The request handler\<close>

definition route_of :: "string \<Rightarrow> string \<Rightarrow> route" where
  "route_of m u =
     (if m = ''POST'' \<and> u = ''/hook/user-prompt-submit'' then UserPromptSubmit
      else if m = ''POST'' \<and> u = ''/hook/stop'' then Stop
      else if m = ''POST'' \<and> u = ''/hook/session-start'' then SessionStart
      else NotFound)"

text \<open>
  \<open>res.writeHead(status).end(text)\<close>: Node throws \<open>ERR_HTTP_HEADERS_SENT\<close> when the
  headers of this response have been sent already.
\<close>

definition writeHeadEnd :: "nat \<Rightarrow> string \<Rightarrow> handler_state \<Rightarrow> exn option \<times> handler_state" where
  "writeHeadEnd status txt s =
     (if headersSent s then (Some ERR_HTTP_HEADERS_SENT, s)
      else (None, s\<lparr>headersSent := True, responses := responses s @ [(status, txt)]\<rparr>))"

text \<open>\<open>onThinkingStart?.()\<close> and \<open>onThinkingStop?.()\<close>: nothing happens for an absent callback.\<close>

definition callOptional ::
  "(unit \<Rightarrow> outcome) option \<Rightarrow> call \<Rightarrow> handler_state \<Rightarrow> exn option \<times> handler_state" where
  "callOptional cb c s =
     (case cb of
        None \<Rightarrow> (None, s)
      | Some f \<Rightarrow>
          ((case f () of Returns \<Rightarrow> None | Throws \<Rightarrow> Some Thrown),
           s\<lparr>calls := calls s @ [c]\<rparr>))"

text \<open>\<open>onSessionHook(sessionId, data)\<close>: calling \<open>undefined\<close> is a TypeError.\<close>

definition callSessionHook ::
  "callbacks \<Rightarrow> jsval \<Rightarrow> jsval \<Rightarrow> handler_state \<Rightarrow> exn option \<times> handler_state" where
  "callSessionHook cbs sid data s =
     (case onSessionHook cbs of
        None \<Rightarrow> (Some TypeError, s)
      | Some f \<Rightarrow>
          ((case f sid data of Returns \<Rightarrow> None | Throws \<Rightarrow> Some Thrown),
           s\<lparr>calls := calls s @ [SessionHook sid data]\<rparr>))"

text \<open>The \<open>catch\<close> block the three routes share: \<open>if (!res.headersSent) res.writeHead(500).end('error')\<close>.\<close>

definition catch500 :: "handler_state \<Rightarrow> exn option \<times> handler_state" where
  "catch500 s = (if \<not> headersSent s then writeHeadEnd 500 ''error'' s else (None, s))"

text \<open>The \<open>try\<close> block of the two thinking routes once the body is drained, and with its \<open>catch\<close>.\<close>

definition thinkingTry ::
  "(unit \<Rightarrow> outcome) option \<Rightarrow> call \<Rightarrow> handler_state \<Rightarrow> exn option \<times> handler_state" where
  "thinkingTry cb c s =
     (case callOptional cb c s of
        (Some e, s1) \<Rightarrow> (Some e, s1)
      | (None, s1) \<Rightarrow> writeHeadEnd 200 ''ok'' s1)"

definition thinkingDone ::
  "(unit \<Rightarrow> outcome) option \<Rightarrow> call \<Rightarrow> handler_state \<Rightarrow> exn option \<times> handler_state" where
  "thinkingDone cb c s =
     (case thinkingTry cb c s of
        (Some e, s1) \<Rightarrow> catch500 s1
      | (None, s1) \<Rightarrow> (None, s1))"

text \<open>\<open>data.session_id || data.sessionId\<close>: the right operand is read only when the left one is falsy.\<close>

definition sessionIdOf :: "jsval \<Rightarrow> exn + jsval" where
  "sessionIdOf data =
     (case getProp data ''session_id'' of
        Inl e \<Rightarrow> Inl e
      | Inr a \<Rightarrow> if truthy a then Inr a else getProp data ''sessionId'')"

text \<open>
  The \<open>try\<close> block of the session-start route once the body is complete. \<open>parse\<close> is the
  runtime's \<open>JSON.parse\<close> applied to the UTF-8 decoding of the bytes received: \<open>None\<close>
  when it throws a SyntaxError, which the inner \<open>try\<close> catches, leaving \<open>data = {}\<close>.
  For a truthy identifier the log line is built first, then the callback is called.
\<close>

definition parseBody :: "(string \<Rightarrow> jsval option) \<Rightarrow> string \<Rightarrow> jsval" where
  "parseBody parse body = (case parse body of None \<Rightarrow> JObject [] | Some v \<Rightarrow> v)"

definition sessionTry ::
  "(string \<Rightarrow> jsval option) \<Rightarrow> callbacks \<Rightarrow> handler_state \<Rightarrow> exn option \<times> handler_state" where
  "sessionTry parse cbs s =
     (let s1 = s\<lparr>timer := False\<rparr>;
          body = concat (chunks s1);
          data = parseBody parse body
      in case sessionIdOf data of
           Inl e \<Rightarrow> (Some e, s1)
         | Inr sid \<Rightarrow>
             (case (if truthy sid
                    then (if toStringThrows sid then (Some TypeError, s1)
                          else callSessionHook cbs sid data s1)
                    else (None, s1)) of
                (Some e, s2) \<Rightarrow> (Some e, s2)
              | (None, s2) \<Rightarrow> writeHeadEnd 200 ''ok'' s2))"

definition sessionCatch :: "handler_state \<Rightarrow> exn option \<times> handler_state" where
  "sessionCatch s = catch500 (s\<lparr>timer := False\<rparr>)"

definition sessionDone ::
  "(string \<Rightarrow> jsval option) \<Rightarrow> callbacks \<Rightarrow> handler_state \<Rightarrow> exn option \<times> handler_state" where
  "sessionDone parse cbs s =
     (case sessionTry parse cbs s of
        (Some e, s1) \<Rightarrow> sessionCatch s1
      | (None, s1) \<Rightarrow> (None, s1))"

text \<open>The timer callback: \<open>if (!res.headersSent) res.writeHead(408).end('timeout')\<close>.\<close>

definition onTimeout :: "handler_state \<Rightarrow> exn option \<times> handler_state" where
  "onTimeout s = (if \<not> headersSent s then writeHeadEnd 408 ''timeout'' s else (None, s))"

text \<open>An exception that nothing catches is recorded; the first one stays.\<close>

definition escape :: "exn option \<times> handler_state \<Rightarrow> handler_state" where
  "escape r =
     (case r of (e, s) \<Rightarrow>
        s\<lparr>uncaught := (case uncaught s of None \<Rightarrow> e | Some x \<Rightarrow> Some x)\<rparr>)"

definition finished :: "exn option \<times> handler_state \<Rightarrow> handler_state" where
  "finished r = (escape r)\<lparr>phase := Finished\<rparr>"

text \<open>
  One event. The timer callback runs only while the timer is set. The stream's events
  reach the handler only while its \<open>for await\<close> loop is running: a chunk is collected
  (session-start) or discarded (thinking routes), the end of the body runs the rest of
  the \<open>try\<close> block, a stream error makes the loop throw into the \<open>catch\<close> block.
\<close>

fun step ::
  "(string \<Rightarrow> jsval option) \<Rightarrow> callbacks \<Rightarrow> route \<Rightarrow> handler_state \<Rightarrow> event \<Rightarrow> handler_state" where
  "step parse cbs rt s TimerFired =
     (if timer s then escape (onTimeout (s\<lparr>timer := False\<rparr>)) else s)"
| "step parse cbs rt s (Chunk c) =
     (if phase s = Finished then s
      else case rt of
             SessionStart \<Rightarrow> s\<lparr>chunks := chunks s @ [c], drained := drained s + 1\<rparr>
           | _ \<Rightarrow> s\<lparr>drained := drained s + 1\<rparr>)"
| "step parse cbs rt s EndOfBody =
     (if phase s = Finished then s
      else case rt of
             UserPromptSubmit \<Rightarrow> finished (thinkingDone (onThinkingStart cbs) ThinkingStart s)
           | Stop \<Rightarrow> finished (thinkingDone (onThinkingStop cbs) ThinkingStop s)
           | SessionStart \<Rightarrow> finished (sessionDone parse cbs s)
           | NotFound \<Rightarrow> s)"
| "step parse cbs rt s StreamError =
     (if phase s = Finished then s
      else case rt of
             UserPromptSubmit \<Rightarrow> finished (catch500 s)
           | Stop \<Rightarrow> finished (catch500 s)
           | SessionStart \<Rightarrow> finished (sessionCatch s)
           | NotFound \<Rightarrow> s)"

definition initial :: handler_state where
  "initial =
     \<lparr> phase = Reading, timer = False, chunks = [], drained = 0, headersSent = False,
       responses = [], calls = [], uncaught = None \<rparr>"

text \<open>
  The synchronous start of the handler: the session-start route sets its timer and the
  three routes begin to read; anything else is answered 404 at once and the request
  stream is never read.
\<close>

definition start :: "route \<Rightarrow> handler_state" where
  "start rt =
     (case rt of
        NotFound \<Rightarrow> finished (writeHeadEnd 404 ''not found'' initial)
      | SessionStart \<Rightarrow> initial\<lparr>timer := True\<rparr>
      | _ \<Rightarrow> initial)"

definition run ::
  "(string \<Rightarrow> jsval option) \<Rightarrow> callbacks \<Rightarrow> route \<Rightarrow> handler_state \<Rightarrow> event list \<Rightarrow> handler_state" where
  "run parse cbs rt s es = foldl (step parse cbs rt) s es"

definition handleRequest ::
  "(string \<Rightarrow> jsval option) \<Rightarrow> callbacks \<Rightarrow> request \<Rightarrow> handler_state" where
  "handleRequest parse cbs r =
     run parse cbs (route_of (req_method r) (url r)) (start (route_of (req_method r) (url r)))
       (events r)"

subsection \<open>The server over a sequence of requests\<close>

text \<open>
  The callbacks are fixed when the server starts and the handler keeps no state between
  requests. The handler is an async function: an exception that leaves it is an
  unhandled rejection, which ends the process, and with it the server.
\<close>

datatype served = Served handler_state | Crashed handler_state

fun serve ::
  "(string \<Rightarrow> jsval option) \<Rightarrow> callbacks \<Rightarrow> request list \<Rightarrow> served list" where
  "serve parse cbs [] = []"
| "serve parse cbs (r # rs) =
     (if uncaught (handleRequest parse cbs r) = None
      then Served (handleRequest parse cbs r) # serve parse cbs rs
      else [Crashed (handleRequest parse cbs r)])"

subsection \<open>A callback that throws\<close>

text \<open>
  Whether the callback a route registers throws when the route calls it for a request
  whose body is \<open>body\<close>: the registered \<open>onThinkingStart\<close> or \<open>onThinkingStop\<close>, and,
  on the session-start route, the registered \<open>onSessionHook\<close> applied to the identifier
  and payload the body yields (it is called only for a truthy identifier).
\<close>

definition callbackThrows ::
  "(string \<Rightarrow> jsval option) \<Rightarrow> callbacks \<Rightarrow> route \<Rightarrow> string \<Rightarrow> bool" where
  "callbackThrows parse cbs rt body =
     (case rt of
        UserPromptSubmit \<Rightarrow>
          (case onThinkingStart cbs of None \<Rightarrow> False | Some f \<Rightarrow> f () = Throws)
      | Stop \<Rightarrow>
          (case onThinkingStop cbs of None \<Rightarrow> False | Some f \<Rightarrow> f () = Throws)
      | SessionStart \<Rightarrow>
          (case sessionIdOf (parseBody parse body) of
             Inl e \<Rightarrow> False
           | Inr sid \<Rightarrow>
               truthy sid \<and> \<not> toStringThrows sid \<and>
               (case onSessionHook cbs of
                  None \<Rightarrow> False
                | Some f \<Rightarrow> f sid (parseBody parse body) = Throws))
      | NotFound \<Rightarrow> False)"

subsection \<open>Example callbacks, bodies and requests\<close>

text \<open>
  The values of \<open>JSON.parse\<close> on the bodies the examples send. \<open>exampleParse\<close> is
  applied to these bodies and to \<open>not json\<close> only, which \<open>JSON.parse\<close> rejects.
\<close>

definition exampleParse :: "string \<Rightarrow> jsval option" where
  "exampleParse body =
     map_of
       [(''{\"session_id\":\"abc\"}'', JObject [(''session_id'', JString ''abc'')]),
        (''{\"sessionId\":\"xyz\"}'', JObject [(''sessionId'', JString ''xyz'')]),
        (''{\"session_id\":\"a\",\"sessionId\":\"b\"}'',
           JObject [(''session_id'', JString ''a''), (''sessionId'', JString ''b'')]),
        (''{\"session_id\":\"\",\"sessionId\":\"b\"}'',
           JObject [(''session_id'', JString ''''), (''sessionId'', JString ''b'')]),
        (''{\"session_id\":\"\"}'', JObject [(''session_id'', JString '''')]),
        (''{}'', JObject []),
        (''null'', JNull)]
       body"

definition hookReturns :: "jsval \<Rightarrow> jsval \<Rightarrow> outcome" where
  "hookReturns sid data = Returns"

definition hookThrows :: "jsval \<Rightarrow> jsval \<Rightarrow> outcome" where
  "hookThrows sid data = Throws"

definition thinkingThrows :: "unit \<Rightarrow> outcome" where
  "thinkingThrows u = Throws"

definition sessionOnly :: callbacks where
  "sessionOnly =
     \<lparr> onSessionHook = Some hookReturns, onThinkingStart = None, onThinkingStop = None \<rparr>"

definition noCallbacks :: callbacks where
  "noCallbacks = \<lparr> onSessionHook = None, onThinkingStart = None, onThinkingStop = None \<rparr>"

definition throwingCallbacks :: callbacks where
  "throwingCallbacks =
     \<lparr> onSessionHook = Some hookThrows, onThinkingStart = Some thinkingThrows,
       onThinkingStop = Some thinkingThrows \<rparr>"

definition post :: "string \<Rightarrow> event list \<Rightarrow> request" where
  "post u es = \<lparr> req_method = ''POST'', url = u, events = es \<rparr>"

subsection \<open>What every state of a request satisfies\<close>

definition requestInv :: "route \<Rightarrow> handler_state \<Rightarrow> bool" where
  "requestInv rt s =
     (uncaught s = None \<and> (headersSent s = (responses s \<noteq> [])) \<and> length (responses s) \<le> 1
      \<and> (phase s = Finished \<longrightarrow> \<not> timer s)
      \<and> (rt \<noteq> SessionStart \<longrightarrow> \<not> timer s)
      \<and> (rt \<noteq> NotFound \<longrightarrow> (\<forall>x \<in> set (responses s). fst x \<noteq> 404)))"

section \<open>Properties of the forwarder\<close>



lemma parseInt_52290: "parseIntText ''52290'' = Some 52290"
  by (simp add: parseIntText_def isWhiteSpace_def isDigit_def digitsValue_def)




text \<open>
  Claim C6, as amended. For a port argument that parses to a valid port (1 to 65535),
  any chunks of bytes on standard input and an event type in which \<open>http.request\<close>
  accepts every character (none is a space or a control character), the forwarder
  reads every chunk and then hands exactly one request to the HTTP client: a POST to
  host 127.0.0.1, that port and path \<open>/hook/<event-type>\<close>, with content type
  \<open>application/json\<close>, a content length equal to the number of buffered bytes, and the
  buffered bytes as its body. The event type is the second argument, and
  \<open>session-start\<close> when that argument is omitted or empty.
\<close>

theorem forwarder_posts_once:
  assumes "parseInt (argv_at argv 2) = Some p" and "0 < p" and "p \<le> 65535"
    and "et = (if 3 < length argv \<and> argv ! 3 \<noteq> [] then argv ! 3 else ''session-start'')"
    and "\<forall>c \<in> set et. 33 \<le> (of_char c :: nat)"
  shows "forwarder argv stdin =
           map StdinData stdin @
           [HttpRequest
              \<lparr> host = ''127.0.0.1'', port = p, http_method = ''POST'',
                path = ''/hook/'' @ et,
                content_type = ''application/json'',
                content_length = length (concat stdin) \<rparr>
              (concat stdin)]
         \<and> length (filter isHttpRequest (forwarder argv stdin)) = 1"
proof -
  have e: "eventType argv = et"
    using assms(4) by (simp add: eventType_def argv_at_def)
  have a: "pathAccepted (''/hook/'' @ et)"
    using assms(5) by (simp add: pathAccepted_def list_all_iff)
  show ?thesis
    using assms(1,2) e a
    by (simp add: forwarder_def Let_def isHttpRequest_def filter_empty_conv image_iff)
qed

theorem forwarder_posts_once_witness:
  "forwarder [''node'', ''fwd.cjs'', ''52290''] [''{\"session_id\":'', ''\"abc\"}''] =
     [StdinData ''{\"session_id\":'', StdinData ''\"abc\"}'',
      HttpRequest
        \<lparr> host = ''127.0.0.1'', port = 52290, http_method = ''POST'',
          path = ''/hook/session-start'',
          content_type = ''application/json'',
          content_length = 20 \<rparr>
        ''{\"session_id\":\"abc\"}'']
   \<and> forwarder [''node'', ''fwd.cjs'', ''52290'', ''stop''] [''{}''] =
     [StdinData ''{}'',
      HttpRequest
        \<lparr> host = ''127.0.0.1'', port = 52290, http_method = ''POST'',
          path = ''/hook/stop'',
          content_type = ''application/json'',
          content_length = 2 \<rparr>
        ''{}'']"
proof -
  have a: "parseInt (argv_at [''node'', ''fwd.cjs'', ''52290''] 2) = Some 52290"
    by (simp add: argv_at_def parseInt_def parseInt_52290)
  have b: "parseInt (argv_at [''node'', ''fwd.cjs'', ''52290'', ''stop''] 2) = Some 52290"
    by (simp add: argv_at_def parseInt_def parseInt_52290)
  have p: "(0::int) < 52290" "(52290::int) \<le> 65535"
    by simp_all
  have c: "''session-start'' =
             (if 3 < length [''node'', ''fwd.cjs'', ''52290'']
                   \<and> [''node'', ''fwd.cjs'', ''52290''] ! 3 \<noteq> []
              then [''node'', ''fwd.cjs'', ''52290''] ! 3 else ''session-start'')"
    by simp
  have d: "''stop'' =
             (if 3 < length [''node'', ''fwd.cjs'', ''52290'', ''stop'']
                   \<and> [''node'', ''fwd.cjs'', ''52290'', ''stop''] ! 3 \<noteq> []
              then [''node'', ''fwd.cjs'', ''52290'', ''stop''] ! 3 else ''session-start'')"
    by simp
  have e: "\<forall>c \<in> set ''session-start''. 33 \<le> (of_char c :: nat)"
    by simp
  have f: "\<forall>c \<in> set ''stop''. 33 \<le> (of_char c :: nat)"
    by simp
  show ?thesis
    using forwarder_posts_once [OF a p c e, of "[''{\"session_id\":'', ''\"abc\"}'']"]
      forwarder_posts_once [OF b p d f, of "[''{}'']"]
    by simp
qed

text \<open>
  As stated, for every event type, claim C6 fails: with a valid port and the event type
  \<open>a b\<close>, \<open>http.request\<close> rejects the path \<open>/hook/a b\<close>, so the forwarder reads standard
  input and then ends with status 1, having handed no request to the HTTP client.
\<close>

theorem unescaped_event_type_counterexample:
  "parseInt (argv_at [''node'', ''fwd.cjs'', ''52290'', ''a b''] 2) = Some 52290
   \<and> forwarder [''node'', ''fwd.cjs'', ''52290'', ''a b''] [''{}''] = [StdinData ''{}'', Exit 1]
   \<and> filter isHttpRequest (forwarder [''node'', ''fwd.cjs'', ''52290'', ''a b''] [''{}'']) = []"
  by (simp add: forwarder_def Let_def parseInt_def parseIntText_def argv_at_def eventType_def
        pathAccepted_def isWhiteSpace_def isDigit_def digitsValue_def isHttpRequest_def)

section \<open>Properties of the notification server\<close>

subsection \<open>Running a request\<close>

lemma run_Nil: "run parse cbs rt s [] = s"
  by (simp add: run_def)

lemma run_Cons: "run parse cbs rt s (e # es) = run parse cbs rt (step parse cbs rt s e) es"
  by (simp add: run_def)

lemma run_append: "run parse cbs rt s (es @ fs) = run parse cbs rt (run parse cbs rt s es) fs"
  by (simp add: run_def)

lemma run_chunks_session:
  "phase s = Reading \<Longrightarrow>
   run parse cbs SessionStart s (map Chunk cs) =
     s\<lparr>chunks := chunks s @ cs, drained := drained s + length cs\<rparr>"
  by (induction cs arbitrary: s) (simp_all add: run_Nil run_Cons)

lemma run_chunks_thinking:
  "phase s = Reading \<Longrightarrow> rt = UserPromptSubmit \<or> rt = Stop \<Longrightarrow>
   run parse cbs rt s (map Chunk cs) = s\<lparr>drained := drained s + length cs\<rparr>"
  by (induction cs arbitrary: s) (auto simp: run_Nil run_Cons)

lemma step_finished:
  "phase s = Finished \<Longrightarrow> \<not> timer s \<Longrightarrow> step parse cbs rt s e = s"
  by (cases e) simp_all

lemma run_finished:
  "phase s = Finished \<Longrightarrow> \<not> timer s \<Longrightarrow> run parse cbs rt s es = s"
  by (induction es) (simp_all add: run_Nil run_Cons step_finished)

subsection \<open>An invariant of every request\<close>

lemmas handler_defs =
  writeHeadEnd_def callOptional_def callSessionHook_def catch500_def thinkingTry_def
  thinkingDone_def sessionTry_def sessionCatch_def sessionDone_def onTimeout_def
  escape_def finished_def parseBody_def

lemma requestInv_start: "requestInv rt (start rt)"
  by (cases rt) (simp_all add: requestInv_def start_def initial_def handler_defs)

lemma requestInv_step: "requestInv rt s \<Longrightarrow> requestInv rt (step parse cbs rt s e)"
  apply (cases e; cases rt)
  apply (auto simp: requestInv_def handler_defs Let_def split: option.splits sum.splits outcome.splits if_splits prod.splits)
  done

lemma requestInv_run: "requestInv rt s \<Longrightarrow> requestInv rt (run parse cbs rt s es)"
  by (induction es arbitrary: s) (simp_all add: run_Nil run_Cons requestInv_step)

lemma requestInv_handle: "requestInv (route_of (req_method r) (url r)) (handleRequest parse cbs r)"
  by (simp add: handleRequest_def requestInv_run requestInv_start)

subsection \<open>A body that completes\<close>

lemma session_in_time:
  assumes "route_of (req_method r) (url r) = SessionStart"
    and "events r = map Chunk cs @ EndOfBody # rest"
  shows "handleRequest parse cbs r =
           finished (sessionDone parse cbs (initial\<lparr>timer := True, chunks := cs, drained := length cs\<rparr>))"
proof -
  let ?s = "initial\<lparr>timer := True, chunks := cs, drained := length cs\<rparr>"
  have a: "run parse cbs SessionStart (start SessionStart) (map Chunk cs) = ?s"
    by (simp add: run_chunks_session start_def initial_def)
  have b: "step parse cbs SessionStart ?s EndOfBody = finished (sessionDone parse cbs ?s)"
    by (simp add: initial_def)
  have c: "phase (finished (sessionDone parse cbs ?s)) = Finished"
    by (simp add: finished_def)
  have d: "\<not> timer (finished (sessionDone parse cbs ?s))"
    by (auto simp: handler_defs Let_def initial_def split: option.splits sum.splits outcome.splits prod.splits)
  have "handleRequest parse cbs r =
          run parse cbs SessionStart
            (step parse cbs SessionStart
               (run parse cbs SessionStart (start SessionStart) (map Chunk cs)) EndOfBody) rest"
    using assms by (simp add: handleRequest_def run_append run_Cons)
  also have "\<dots> = run parse cbs SessionStart (finished (sessionDone parse cbs ?s)) rest"
    by (simp only: a b)
  also have "\<dots> = finished (sessionDone parse cbs ?s)"
    by (rule run_finished [OF c d])
  finally show ?thesis .
qed

lemma thinking_complete:
  assumes "route_of (req_method r) (url r) = rt" and "rt = UserPromptSubmit \<or> rt = Stop"
    and "events r = map Chunk cs @ EndOfBody # rest"
  shows "handleRequest parse cbs r =
           finished (thinkingDone (if rt = UserPromptSubmit then onThinkingStart cbs else onThinkingStop cbs)
                       (if rt = UserPromptSubmit then ThinkingStart else ThinkingStop)
                       (initial\<lparr>drained := length cs\<rparr>))"
proof -
  let ?s = "initial\<lparr>drained := length cs\<rparr>"
  let ?t = "finished (thinkingDone (if rt = UserPromptSubmit then onThinkingStart cbs else onThinkingStop cbs)
                       (if rt = UserPromptSubmit then ThinkingStart else ThinkingStop) ?s)"
  have a: "run parse cbs rt (start rt) (map Chunk cs) = ?s"
    using assms(2) by (auto simp: run_chunks_thinking start_def initial_def)
  have b: "step parse cbs rt ?s EndOfBody = ?t"
    using assms(2) by (auto simp: initial_def)
  have c: "phase ?t = Finished"
    by (simp add: finished_def)
  have d: "\<not> timer ?t"
    by (auto simp: handler_defs Let_def initial_def split: option.splits sum.splits outcome.splits prod.splits)
  have "handleRequest parse cbs r =
          run parse cbs rt (step parse cbs rt (run parse cbs rt (start rt) (map Chunk cs)) EndOfBody) rest"
    using assms(1,3) by (simp add: handleRequest_def run_append run_Cons)
  also have "\<dots> = run parse cbs rt ?t rest"
    by (simp only: a b)
  also have "\<dots> = ?t"
    by (rule run_finished [OF c d])
  finally show ?thesis .
qed

lemma sessionIdOf_object:
  "sessionIdOf (JObject kvs) =
     Inr (if truthy (ownProperty kvs ''session_id'') then ownProperty kvs ''session_id'' else ownProperty kvs ''sessionId'')"
  by (simp add: sessionIdOf_def getProp_def ownProperty_def)

subsection \<open>Once a response is written\<close>

lemma step_after_response:
  "headersSent s \<Longrightarrow> uncaught s = None \<Longrightarrow>
   headersSent (step parse cbs rt s e) \<and> responses (step parse cbs rt s e) = responses s
     \<and> uncaught (step parse cbs rt s e) = None"
  by (cases e; cases rt)
     (auto simp: handler_defs Let_def split: option.splits sum.splits outcome.splits prod.splits)

lemma step_calls_unchanged:
  "e \<noteq> EndOfBody \<Longrightarrow> calls (step parse cbs rt s e) = calls s"
  by (cases e; cases rt) (auto simp: handler_defs)

subsection \<open>What the callbacks see does not depend on the response\<close>

lemma escape_progress:
  "phase (escape r) = phase (snd r) \<and> chunks (escape r) = chunks (snd r)
     \<and> calls (escape r) = calls (snd r)"
  by (cases r) (simp add: escape_def)

lemma finished_progress:
  "phase (finished r) = Finished \<and> chunks (finished r) = chunks (snd r)
     \<and> calls (finished r) = calls (snd r)"
  by (simp add: finished_def escape_progress)

lemma onTimeout_progress:
  "phase (snd (onTimeout s)) = phase s \<and> chunks (snd (onTimeout s)) = chunks s
     \<and> calls (snd (onTimeout s)) = calls s"
  by (simp add: onTimeout_def writeHeadEnd_def)

lemma catch500_progress:
  "chunks (snd (catch500 s)) = chunks s \<and> calls (snd (catch500 s)) = calls s"
  by (simp add: catch500_def writeHeadEnd_def)

lemma sessionCatch_progress:
  "chunks (snd (sessionCatch s)) = chunks s \<and> calls (snd (sessionCatch s)) = calls s"
  by (simp add: sessionCatch_def catch500_def writeHeadEnd_def)

lemma thinkingDone_progress:
  "chunks (snd (thinkingDone cb c s)) = chunks s
     \<and> calls (snd (thinkingDone cb c s)) = calls s @ (if cb = None then [] else [c])"
  by (auto simp: thinkingDone_def thinkingTry_def callOptional_def catch500_def writeHeadEnd_def
        split: outcome.splits option.splits)

lemma sessionDone_progress:
  "chunks (snd (sessionDone parse cbs s)) = chunks s
     \<and> calls (snd (sessionDone parse cbs s)) =
         calls s @
         (case sessionIdOf (parseBody parse (concat (chunks s))) of
            Inl e \<Rightarrow> []
          | Inr sid \<Rightarrow>
              if truthy sid \<and> \<not> toStringThrows sid \<and> onSessionHook cbs \<noteq> None
              then [SessionHook sid (parseBody parse (concat (chunks s)))] else [])"
  by (auto simp: sessionDone_def sessionTry_def sessionCatch_def callSessionHook_def
        catch500_def writeHeadEnd_def Let_def
        split: outcome.splits option.splits sum.splits)

lemma step_progress:
  assumes "phase s = phase t" and "chunks s = chunks t" and "calls s = calls t"
  shows "phase (step parse cbs rt s e) = phase (step parse cbs rt t e)
     \<and> chunks (step parse cbs rt s e) = chunks (step parse cbs rt t e)
     \<and> calls (step parse cbs rt s e) = calls (step parse cbs rt t e)"
proof (cases e)
  case (Chunk c)
  with assms show ?thesis by (cases rt) simp_all
next
  case EndOfBody
  with assms show ?thesis
    by (cases rt) (auto simp: finished_progress thinkingDone_progress sessionDone_progress split: sum.splits)
next
  case StreamError
  with assms show ?thesis
    by (cases rt) (simp_all add: finished_progress catch500_progress sessionCatch_progress)
next
  case TimerFired
  with assms show ?thesis
    by (simp add: escape_progress onTimeout_progress)
qed

lemma run_after_response:
  "headersSent s \<Longrightarrow> uncaught s = None \<Longrightarrow>
   responses (run parse cbs rt s es) = responses s \<and> uncaught (run parse cbs rt s es) = None"
proof (induction es arbitrary: s)
  case Nil
  then show ?case by (simp add: run_Nil)
next
  case (Cons e es)
  have "responses (run parse cbs rt (step parse cbs rt s e) es) =
          responses (step parse cbs rt s e)
        \<and> uncaught (run parse cbs rt (step parse cbs rt s e) es) = None"
    using step_after_response [OF Cons.prems, of parse cbs rt e] by (intro Cons.IH) simp_all
  then show ?case
    using step_after_response [OF Cons.prems, of parse cbs rt e] by (simp add: run_Cons)
qed

lemma run_progress:
  "phase s = phase t \<Longrightarrow> chunks s = chunks t \<Longrightarrow> calls s = calls t \<Longrightarrow>
   calls (run parse cbs rt s es) = calls (run parse cbs rt t es)"
proof (induction es arbitrary: s t)
  case Nil
  then show ?case by (simp add: run_Nil)
next
  case (Cons e es)
  have "calls (run parse cbs rt (step parse cbs rt s e) es) =
          calls (run parse cbs rt (step parse cbs rt t e) es)"
    using step_progress [OF Cons.prems, of parse cbs rt e] by (intro Cons.IH) simp_all
  then show ?case by (simp add: run_Cons)
qed

lemma run_calls_unchanged:
  "EndOfBody \<notin> set es \<Longrightarrow> calls (run parse cbs rt s es) = calls s"
  by (induction es arbitrary: s) (auto simp: run_Nil run_Cons step_calls_unchanged)

lemma session_timed_out:
  "run parse cbs SessionStart (start SessionStart) (map Chunk cs @ [TimerFired]) =
     initial\<lparr>chunks := cs, drained := length cs, headersSent := True,
             responses := [(408, ''timeout'')]\<rparr>"
  by (simp add: run_append run_chunks_session run_Cons run_Nil start_def initial_def handler_defs)

lemmas example_defs =
  exampleParse_def hookReturns_def hookThrows_def thinkingThrows_def
  sessionOnly_def noCallbacks_def throwingCallbacks_def post_def

subsection \<open>Failures\<close>

lemma serve_all:
  "serve parse cbs rs = map (\<lambda>q. Served (handleRequest parse cbs q)) rs"
proof (induction rs)
  case Nil
  show ?case by simp
next
  case (Cons r rs)
  have "uncaught (handleRequest parse cbs r) = None"
    using requestInv_handle [of r parse cbs] by (simp add: requestInv_def)
  then show ?case by (simp add: Cons.IH)
qed

lemma thinking_prefix:
  assumes "rt = UserPromptSubmit \<or> rt = Stop" and "tm = [] \<or> tm = [TimerFired]"
  shows "run parse cbs rt (start rt) (map Chunk cs @ tm @ map Chunk ds) =
           initial\<lparr>drained := length cs + length ds\<rparr>"
proof -
  have a: "run parse cbs rt (start rt) (map Chunk cs) = initial\<lparr>drained := length cs\<rparr>"
    using assms(1) by (auto simp: run_chunks_thinking start_def initial_def)
  have b: "run parse cbs rt (initial\<lparr>drained := length cs\<rparr>) tm = initial\<lparr>drained := length cs\<rparr>"
    using assms(2) by (auto simp: run_Nil run_Cons initial_def)
  have c: "run parse cbs rt (initial\<lparr>drained := length cs\<rparr>) (map Chunk ds) =
             initial\<lparr>drained := length cs + length ds\<rparr>"
    using assms(1) by (auto simp: run_chunks_thinking initial_def)
  show ?thesis
    by (simp only: run_append a b c)
qed

lemma session_prefix:
  "run parse cbs SessionStart (start SessionStart) (map Chunk cs @ map Chunk ds) =
     initial\<lparr>timer := True, chunks := cs @ ds, drained := length cs + length ds\<rparr>"
  by (simp add: run_append run_chunks_session start_def initial_def)

lemma thinking_failure:
  assumes "rt = UserPromptSubmit \<or> rt = Stop"
    and "t = StreamError \<or> (t = EndOfBody \<and> callbackThrows parse cbs rt body)"
  shows "responses (run parse cbs rt (initial\<lparr>drained := n\<rparr>) (t # rest)) = [(500, ''error'')]"
proof -
  let ?s = "step parse cbs rt (initial\<lparr>drained := n\<rparr>) t"
  have a: "responses ?s = [(500, ''error'')] \<and> phase ?s = Finished \<and> \<not> timer ?s"
    using assms
    by (auto simp: callbackThrows_def initial_def handler_defs split: option.splits)
  then have "run parse cbs rt ?s rest = ?s"
    by (simp add: run_finished)
  then show ?thesis
    using a by (simp add: run_Cons)
qed

lemma session_failure:
  assumes "t = StreamError \<or> (t = EndOfBody \<and> callbackThrows parse cbs SessionStart (concat cs))"
  shows "responses (run parse cbs SessionStart
            (initial\<lparr>timer := True, chunks := cs, drained := n\<rparr>) (t # rest)) = [(500, ''error'')]"
proof -
  let ?s = "step parse cbs SessionStart (initial\<lparr>timer := True, chunks := cs, drained := n\<rparr>) t"
  have a: "responses ?s = [(500, ''error'')] \<and> phase ?s = Finished \<and> \<not> timer ?s"
    using assms
    by (auto simp: callbackThrows_def initial_def handler_defs Let_def
          split: option.splits sum.splits)
  then have "run parse cbs SessionStart ?s rest = ?s"
    by (simp add: run_finished)
  then show ?thesis
    using a by (simp add: run_Cons)
qed

subsection \<open>The claims about the server\<close>

text \<open>
  Claim C4. On the session-start route, when the whole body arrives before the timer
  fires and \<open>JSON.parse\<close> rejects it, the payload is taken as the empty object: the
  only response is 200 (so no 500), \<open>onSessionHook\<close> is not invoked, nor is any other
  callback, and no exception leaves the handler.
\<close>

theorem malformed_json_ok:
  assumes "route_of (req_method r) (url r) = SessionStart"
    and "events r = map Chunk cs @ EndOfBody # rest"
    and "parse (concat cs) = None"
  shows "responses (handleRequest parse cbs r) = [(200, ''ok'')]
           \<and> calls (handleRequest parse cbs r) = []
           \<and> uncaught (handleRequest parse cbs r) = None"
  unfolding session_in_time [OF assms(1,2)]
  using assms(3)
  by (simp add: handler_defs parseBody_def sessionIdOf_def getProp_def ownProperty_def initial_def)

theorem malformed_json_ok_witness:
  "responses (handleRequest exampleParse sessionOnly
      (post ''/hook/session-start'' [Chunk ''not '', Chunk ''json'', EndOfBody])) = [(200, ''ok'')]
   \<and> calls (handleRequest exampleParse sessionOnly
      (post ''/hook/session-start'' [Chunk ''not '', Chunk ''json'', EndOfBody])) = []"
  using malformed_json_ok [where r = "post ''/hook/session-start'' [Chunk ''not '', Chunk ''json'', EndOfBody]"
      and cs = "[''not '', ''json'']" and rest = "[]" and parse = exampleParse
      and cbs = sessionOnly]
  by (simp add: route_of_def post_def exampleParse_def)

text \<open>
  Claim C9. On the session-start route, when the whole body arrives before the timer
  fires and \<open>JSON.parse\<close> returns \<open>null\<close> (the body \<open>null\<close>, with or without white
  space around it), reading \<open>data.session_id\<close> throws a TypeError: the only response
  is 500 and \<open>onSessionHook\<close> is not invoked.
\<close>

theorem null_body_500:
  assumes "route_of (req_method r) (url r) = SessionStart"
    and "events r = map Chunk cs @ EndOfBody # rest"
    and "parse (concat cs) = Some JNull"
  shows "responses (handleRequest parse cbs r) = [(500, ''error'')]
           \<and> calls (handleRequest parse cbs r) = []
           \<and> uncaught (handleRequest parse cbs r) = None"
  unfolding session_in_time [OF assms(1,2)]
  using assms(3)
  by (simp add: handler_defs parseBody_def sessionIdOf_def getProp_def ownProperty_def initial_def)

theorem null_body_500_witness:
  "responses (handleRequest exampleParse sessionOnly
      (post ''/hook/session-start'' [Chunk ''null'', EndOfBody])) = [(500, ''error'')]
   \<and> calls (handleRequest exampleParse sessionOnly
      (post ''/hook/session-start'' [Chunk ''null'', EndOfBody])) = []"
  using null_body_500 [where r = "post ''/hook/session-start'' [Chunk ''null'', EndOfBody]"
      and cs = "[''null'']" and rest = "[]" and parse = exampleParse and cbs = sessionOnly]
  by (simp add: route_of_def post_def exampleParse_def)

text \<open>
  Claim C2, as amended. For a body that parses to an object, received before the timer
  fires, with \<open>onSessionHook\<close> registered: the value under \<open>session_id\<close> is the
  identifier when it is truthy; the value under \<open>sessionId\<close> is the identifier only
  when \<open>session_id\<close> is absent or holds a falsy value, and then only if it is truthy
  itself; otherwise the callback is not invoked. The callback receives the identifier
  and the payload, unless converting the identifier to a string for the log line
  throws, which no string, number or boolean does.
\<close>

theorem session_id_truthy_precedence:
  assumes "route_of (req_method r) (url r) = SessionStart"
    and "events r = map Chunk cs @ EndOfBody # rest"
    and "parse (concat cs) = Some (JObject kvs)"
    and "onSessionHook cbs = Some f"
  shows "calls (handleRequest parse cbs r) =
           (if truthy (ownProperty kvs ''session_id'')
            then (if toStringThrows (ownProperty kvs ''session_id'') then []
                  else [SessionHook (ownProperty kvs ''session_id'') (JObject kvs)])
            else if truthy (ownProperty kvs ''sessionId'')
            then (if toStringThrows (ownProperty kvs ''sessionId'') then []
                  else [SessionHook (ownProperty kvs ''sessionId'') (JObject kvs)])
            else [])"
  unfolding session_in_time [OF assms(1,2)]
  using assms(3,4)
  by (simp add: handler_defs sessionIdOf_object initial_def split: outcome.splits)

theorem session_id_truthy_precedence_witness:
  "calls (handleRequest exampleParse sessionOnly
      (post ''/hook/session-start''
         [Chunk ''{\"session_id\":\"a\",\"sessionId\":\"b\"}'', EndOfBody]))
     = [SessionHook (JString ''a'')
          (JObject [(''session_id'', JString ''a''), (''sessionId'', JString ''b'')])]"
  using session_id_truthy_precedence [where r = "post ''/hook/session-start''
                         [Chunk ''{\"session_id\":\"a\",\"sessionId\":\"b\"}'', EndOfBody]"
      and cs = "[''{\"session_id\":\"a\",\"sessionId\":\"b\"}'']" and rest = "[]"
      and parse = exampleParse and cbs = sessionOnly and f = hookReturns
      and kvs = "[(''session_id'', JString ''a''), (''sessionId'', JString ''b'')]"]
  by (simp add: route_of_def post_def exampleParse_def sessionOnly_def ownProperty_def)

text \<open>
  As stated, with key presence deciding, claim C2 fails: the key \<open>session_id\<close> is
  present in this body, with the empty string, and the callback receives the value of
  \<open>sessionId\<close>.
\<close>
theorem session_id_present_counterexample:
  "map_of [(''session_id'', JString ''''), (''sessionId'', JString ''b'')] ''session_id''
     = Some (JString '''')
   \<and> exampleParse ''{\"session_id\":\"\",\"sessionId\":\"b\"}''
     = Some (JObject [(''session_id'', JString ''''), (''sessionId'', JString ''b'')])
   \<and> calls (handleRequest exampleParse sessionOnly
        (post ''/hook/session-start''
           [Chunk ''{\"session_id\":\"\",\"sessionId\":\"b\"}'', EndOfBody]))
     = [SessionHook (JString ''b'')
          (JObject [(''session_id'', JString ''''), (''sessionId'', JString ''b'')])]"
  by (simp add: handleRequest_def run_def route_of_def start_def initial_def handler_defs
        sessionIdOf_def getProp_def ownProperty_def example_defs)

text \<open>
  Claim C10. Presence of the identifier is truthiness, not presence of the key: when
  the body parses to an object whose \<open>session_id\<close> is the empty string, the identifier
  is whatever \<open>sessionId\<close> holds; if that is falsy too (empty or absent, for
  instance) no callback is invoked and the response is 200; if it is truthy, converts
  to a string for the log line and \<open>onSessionHook\<close> is registered, the callback
  receives it.
\<close>

theorem empty_session_id_falls_back:
  assumes "route_of (req_method r) (url r) = SessionStart"
    and "events r = map Chunk cs @ EndOfBody # rest"
    and "parse (concat cs) = Some (JObject kvs)"
    and "map_of kvs ''session_id'' = Some (JString '''')"
  shows "sessionIdOf (JObject kvs) = Inr (ownProperty kvs ''sessionId'')
         \<and> (\<not> truthy (ownProperty kvs ''sessionId'') \<longrightarrow>
               calls (handleRequest parse cbs r) = []
               \<and> responses (handleRequest parse cbs r) = [(200, ''ok'')])
         \<and> (truthy (ownProperty kvs ''sessionId'') \<and> \<not> toStringThrows (ownProperty kvs ''sessionId'')
              \<and> onSessionHook cbs \<noteq> None \<longrightarrow>
               calls (handleRequest parse cbs r) =
                 [SessionHook (ownProperty kvs ''sessionId'') (JObject kvs)])"
proof -
  have e: "\<not> truthy (ownProperty kvs ''session_id'')"
    using assms(4) by (simp add: ownProperty_def)
  show ?thesis
    unfolding session_in_time [OF assms(1,2)]
    using assms(3) e
    by (auto simp: handler_defs Let_def sessionIdOf_object initial_def split: outcome.splits)
qed

theorem empty_session_id_falls_back_witness:
  "calls (handleRequest exampleParse sessionOnly
      (post ''/hook/session-start'' [Chunk ''{\"session_id\":\"\"}'', EndOfBody])) = []
   \<and> responses (handleRequest exampleParse sessionOnly
      (post ''/hook/session-start'' [Chunk ''{\"session_id\":\"\"}'', EndOfBody])) = [(200, ''ok'')]
   \<and> calls (handleRequest exampleParse sessionOnly
      (post ''/hook/session-start''
         [Chunk ''{\"session_id\":\"\",\"sessionId\":\"b\"}'', EndOfBody]))
     = [SessionHook (JString ''b'')
          (JObject [(''session_id'', JString ''''), (''sessionId'', JString ''b'')])]"
  using empty_session_id_falls_back [where r = "post ''/hook/session-start'' [Chunk ''{\"session_id\":\"\"}'', EndOfBody]"
      and cs = "[''{\"session_id\":\"\"}'']" and rest = "[]"
      and parse = exampleParse and cbs = sessionOnly
      and kvs = "[(''session_id'', JString '''')]"]
    empty_session_id_falls_back [where r = "post ''/hook/session-start''
                      [Chunk ''{\"session_id\":\"\",\"sessionId\":\"b\"}'', EndOfBody]"
      and cs = "[''{\"session_id\":\"\",\"sessionId\":\"b\"}'']" and rest = "[]"
      and parse = exampleParse and cbs = sessionOnly
      and kvs = "[(''session_id'', JString ''''), (''sessionId'', JString ''b'')]"]
  by (simp add: route_of_def post_def exampleParse_def sessionOnly_def ownProperty_def)

text \<open>
  Claim C3, as amended. \<open>onThinkingStart\<close> and \<open>onThinkingStop\<close> are optional, each
  on its own and whatever the other slots hold: when the handler of a thinking route is
  absent, the route still drains every chunk of the body, responds 200, invokes nothing
  and lets no exception escape.
\<close>

theorem thinking_handlers_optional:
  assumes "route_of (req_method r) (url r) = rt"
    and "events r = map Chunk cs @ EndOfBody # rest"
    and "(rt = UserPromptSubmit \<and> onThinkingStart cbs = None)
           \<or> (rt = Stop \<and> onThinkingStop cbs = None)"
  shows "drained (handleRequest parse cbs r) = length cs
         \<and> responses (handleRequest parse cbs r) = [(200, ''ok'')]
         \<and> calls (handleRequest parse cbs r) = []
         \<and> uncaught (handleRequest parse cbs r) = None"
proof -
  have rt: "rt = UserPromptSubmit \<or> rt = Stop"
    using assms(3) by blast
  show ?thesis
    unfolding thinking_complete [OF assms(1) rt assms(2)]
    using assms(3)
    by (auto simp: handler_defs initial_def)
qed

theorem thinking_handlers_optional_witness:
  "drained (handleRequest exampleParse sessionOnly
      (post ''/hook/stop'' [Chunk ''{}'', EndOfBody])) = 1
   \<and> responses (handleRequest exampleParse sessionOnly
      (post ''/hook/stop'' [Chunk ''{}'', EndOfBody])) = [(200, ''ok'')]
   \<and> calls (handleRequest exampleParse sessionOnly
      (post ''/hook/stop'' [Chunk ''{}'', EndOfBody])) = []
   \<and> responses (handleRequest exampleParse
        \<lparr> onSessionHook = Some hookThrows, onThinkingStart = None,
          onThinkingStop = Some thinkingThrows \<rparr>
        (post ''/hook/user-prompt-submit'' [EndOfBody])) = [(200, ''ok'')]"
  using thinking_handlers_optional [where r = "post ''/hook/stop'' [Chunk ''{}'', EndOfBody]" and rt = Stop
      and cs = "[''{}'']" and rest = "[]" and parse = exampleParse and cbs = sessionOnly]
    thinking_handlers_optional [where r = "post ''/hook/user-prompt-submit'' [EndOfBody]" and rt = UserPromptSubmit
      and cs = "[]" and rest = "[]" and parse = exampleParse
      and cbs = "\<lparr> onSessionHook = Some hookThrows, onThinkingStart = None,
                   onThinkingStop = Some thinkingThrows \<rparr>"]
  by (simp add: route_of_def post_def sessionOnly_def)

text \<open>
  As stated, for all three handlers, claim C3 fails: \<open>onSessionHook\<close> is called without
  a check, so with that handler absent a body that carries an identifier is answered
  500.
\<close>
theorem absent_session_hook_counterexample:
  "onSessionHook noCallbacks = None
   \<and> responses (handleRequest exampleParse noCallbacks
        (post ''/hook/session-start'' [Chunk ''{\"session_id\":\"abc\"}'', EndOfBody]))
     = [(500, ''error'')]"
  by (simp add: handleRequest_def run_def route_of_def start_def initial_def handler_defs
        sessionIdOf_def getProp_def ownProperty_def example_defs)

text \<open>
  Claim C1, as amended. On the session-start route, when the timer fires before the
  body is complete, the response is 408 and no other response is ever written for that
  request, and no exception leaves the handler. No callback is invoked unless the
  stream later ends normally; whatever follows the timeout, the callbacks invoked are
  exactly those the same stream would invoke with no timeout, so a body that completes
  late and carries an identifier still reaches \<open>onSessionHook\<close>.
\<close>

theorem timeout_then_late_body:
  assumes "route_of (req_method r) (url r) = SessionStart"
    and "events r = map Chunk cs @ TimerFired # rest"
  shows "responses (handleRequest parse cbs r) = [(408, ''timeout'')]
         \<and> uncaught (handleRequest parse cbs r) = None
         \<and> (EndOfBody \<notin> set rest \<longrightarrow> calls (handleRequest parse cbs r) = [])
         \<and> calls (handleRequest parse cbs r) =
             calls (handleRequest parse cbs (r\<lparr>events := map Chunk cs @ rest\<rparr>))"
proof -
  let ?t = "initial\<lparr>chunks := cs, drained := length cs, headersSent := True,
                    responses := [(408, ''timeout'')]\<rparr>"
  let ?u = "initial\<lparr>timer := True, chunks := cs, drained := length cs\<rparr>"
  have "handleRequest parse cbs r =
          run parse cbs SessionStart
            (run parse cbs SessionStart (start SessionStart) (map Chunk cs @ [TimerFired])) rest"
    using assms by (simp add: handleRequest_def run_append run_Cons run_Nil)
  then have h: "handleRequest parse cbs r = run parse cbs SessionStart ?t rest"
    by (simp only: session_timed_out)
  have u: "handleRequest parse cbs (r\<lparr>events := map Chunk cs @ rest\<rparr>) =
             run parse cbs SessionStart ?u rest"
    using assms(1)
    by (simp add: handleRequest_def run_append run_chunks_session start_def initial_def)
  have a: "responses (run parse cbs SessionStart ?t rest) = [(408, ''timeout'')]
             \<and> uncaught (run parse cbs SessionStart ?t rest) = None"
    using run_after_response [of ?t parse cbs SessionStart rest] by (simp add: initial_def)
  have b: "EndOfBody \<notin> set rest \<longrightarrow> calls (run parse cbs SessionStart ?t rest) = []"
    by (simp add: run_calls_unchanged initial_def)
  have c: "calls (run parse cbs SessionStart ?t rest) = calls (run parse cbs SessionStart ?u rest)"
    by (rule run_progress) (simp_all add: initial_def)
  show ?thesis
    using a b c by (simp add: h u)
qed

theorem timeout_then_late_body_witness:
  "responses (handleRequest exampleParse sessionOnly
      (post ''/hook/session-start'' [Chunk ''{\"sess'', TimerFired, StreamError]))
     = [(408, ''timeout'')]
   \<and> calls (handleRequest exampleParse sessionOnly
      (post ''/hook/session-start'' [Chunk ''{\"sess'', TimerFired, StreamError])) = []"
  using timeout_then_late_body [where r = "post ''/hook/session-start'' [Chunk ''{\"sess'', TimerFired, StreamError]"
      and cs = "[''{\"sess'']" and rest = "[StreamError]" and parse = exampleParse
      and cbs = sessionOnly]
  by (simp add: route_of_def post_def)

text \<open>
  As stated, claim C1 fails: the timer fires first, the body arrives and ends after the
  408, and \<open>onSessionHook\<close> is invoked with its identifier.
\<close>
theorem timeout_callback_counterexample:
  "responses (handleRequest exampleParse sessionOnly
      (post ''/hook/session-start''
         [TimerFired, Chunk ''{\"session_id\":\"abc\"}'', EndOfBody])) = [(408, ''timeout'')]
   \<and> calls (handleRequest exampleParse sessionOnly
      (post ''/hook/session-start''
         [TimerFired, Chunk ''{\"session_id\":\"abc\"}'', EndOfBody]))
     = [SessionHook (JString ''abc'') (JObject [(''session_id'', JString ''abc'')])]"
  by (simp add: handleRequest_def run_def route_of_def start_def initial_def handler_defs
        sessionIdOf_def getProp_def ownProperty_def example_defs)

text \<open>
  Claim C7. On each of the three routes, when the stream fails while the body is
  drained, or the body ends and the registered callback throws, the request gets
  exactly one response: 500, unless the session-start timer has already answered 408,
  in which case nothing more is written. No exception leaves the handler, and every
  request that follows is served by the same handler.
\<close>

theorem failure_answered_once:
  assumes "route_of (req_method r) (url r) = rt" and "rt \<noteq> NotFound"
    and "events r = map Chunk cs @ tm @ map Chunk ds @ t # rest"
    and "tm = [] \<or> tm = [TimerFired]"
    and "t = StreamError \<or> (t = EndOfBody \<and> callbackThrows parse cbs rt (concat (cs @ ds)))"
  shows "responses (handleRequest parse cbs r) =
           (if rt = SessionStart \<and> tm = [TimerFired] then [(408, ''timeout'')]
            else [(500, ''error'')])
         \<and> uncaught (handleRequest parse cbs r) = None
         \<and> serve parse cbs (r # rs) =
             Served (handleRequest parse cbs r) # map (\<lambda>q. Served (handleRequest parse cbs q)) rs"
proof -
  have h: "handleRequest parse cbs r =
             run parse cbs rt (run parse cbs rt (start rt) (map Chunk cs @ tm @ map Chunk ds))
               (t # rest)"
    using assms(1,3) by (simp add: handleRequest_def run_append)
  have u: "uncaught (handleRequest parse cbs r) = None"
    using requestInv_handle [of r parse cbs] by (simp add: requestInv_def)
  have resp: "responses (handleRequest parse cbs r) =
           (if rt = SessionStart \<and> tm = [TimerFired] then [(408, ''timeout'')]
            else [(500, ''error'')])"
  proof (cases "rt = SessionStart")
    case False
    with assms(2) have th: "rt = UserPromptSubmit \<or> rt = Stop"
      by (cases rt) simp_all
    show ?thesis
      using False thinking_failure [OF th assms(5)]
      by (simp add: h thinking_prefix [OF th assms(4)])
  next
    case True
    show ?thesis
    proof (cases "tm = []")
      case True
      have "responses (run parse cbs SessionStart
              (initial\<lparr>timer := True, chunks := cs @ ds, drained := length cs + length ds\<rparr>)
              (t # rest)) = [(500, ''error'')]"
        using assms(5) \<open>rt = SessionStart\<close> by (intro session_failure) simp
      then show ?thesis
        using True \<open>rt = SessionStart\<close> by (simp add: h session_prefix)
    next
      case False
      with assms(4) have tm: "tm = [TimerFired]" by simp
      have "handleRequest parse cbs r =
              run parse cbs SessionStart
                (run parse cbs SessionStart (start SessionStart) (map Chunk cs @ [TimerFired]))
                (map Chunk ds @ t # rest)"
        using assms(1,3) tm \<open>rt = SessionStart\<close>
        by (simp add: handleRequest_def run_append run_Cons run_Nil)
      then have "responses (handleRequest parse cbs r) = [(408, ''timeout'')]"
        using run_after_response
          [of "initial\<lparr>chunks := cs, drained := length cs, headersSent := True,
                        responses := [(408, ''timeout'')]\<rparr>"
              parse cbs SessionStart "map Chunk ds @ t # rest"]
        by (simp add: session_timed_out initial_def)
      then show ?thesis
        using tm \<open>rt = SessionStart\<close> by simp
    qed
  qed
  show ?thesis
    using resp u by (simp add: serve_all)
qed

theorem failure_answered_once_witness:
  "responses (handleRequest exampleParse throwingCallbacks
      (post ''/hook/stop'' [Chunk ''{}'', EndOfBody])) = [(500, ''error'')]
   \<and> serve exampleParse throwingCallbacks
        [post ''/hook/stop'' [Chunk ''{}'', EndOfBody], post ''/hook/user-prompt-submit'' [StreamError]]
      = [Served (handleRequest exampleParse throwingCallbacks
                   (post ''/hook/stop'' [Chunk ''{}'', EndOfBody])),
         Served (handleRequest exampleParse throwingCallbacks
                   (post ''/hook/user-prompt-submit'' [StreamError]))]
   \<and> responses (handleRequest exampleParse throwingCallbacks
        (post ''/hook/user-prompt-submit'' [StreamError])) = [(500, ''error'')]
   \<and> responses (handleRequest exampleParse throwingCallbacks
        (post ''/hook/session-start'' [Chunk ''{\"session_id\":\"abc\"}'', EndOfBody]))
      = [(500, ''error'')]
   \<and> responses (handleRequest exampleParse throwingCallbacks
        (post ''/hook/session-start''
           [TimerFired, Chunk ''{\"session_id\":\"abc\"}'', EndOfBody])) = [(408, ''timeout'')]"
proof -
  have thr: "callbackThrows exampleParse throwingCallbacks SessionStart ''{\"session_id\":\"abc\"}''"
    by (simp add: callbackThrows_def parseBody_def sessionIdOf_def getProp_def ownProperty_def
          example_defs)
  have a: "responses (handleRequest exampleParse throwingCallbacks
      (post ''/hook/stop'' [Chunk ''{}'', EndOfBody])) = [(500, ''error'')]
   \<and> serve exampleParse throwingCallbacks
        [post ''/hook/stop'' [Chunk ''{}'', EndOfBody], post ''/hook/user-prompt-submit'' [StreamError]]
      = [Served (handleRequest exampleParse throwingCallbacks
                   (post ''/hook/stop'' [Chunk ''{}'', EndOfBody])),
         Served (handleRequest exampleParse throwingCallbacks
                   (post ''/hook/user-prompt-submit'' [StreamError]))]"
  proof -
    have 1: "route_of (req_method (post ''/hook/stop'' [Chunk ''{}'', EndOfBody]))
               (url (post ''/hook/stop'' [Chunk ''{}'', EndOfBody])) = Stop"
      by (simp add: route_of_def post_def)
    have 2: "Stop \<noteq> NotFound" by simp
    have 3: "events (post ''/hook/stop'' [Chunk ''{}'', EndOfBody]) =
               map Chunk [''{}''] @ [] @ map Chunk [] @ EndOfBody # []"
      by (simp add: post_def)
    have 4: "[] = [] \<or> [] = [TimerFired]" by simp
    have 5: "EndOfBody = StreamError \<or>
             (EndOfBody = EndOfBody \<and>
              callbackThrows exampleParse throwingCallbacks Stop (concat ([''{}''] @ [])))"
      by (simp add: callbackThrows_def throwingCallbacks_def thinkingThrows_def)
    from failure_answered_once [OF 1 2 3 4 5, of "[post ''/hook/user-prompt-submit'' [StreamError]]"]
    show ?thesis by (simp del: serve.simps)
  qed
  have b: "responses (handleRequest exampleParse throwingCallbacks
        (post ''/hook/user-prompt-submit'' [StreamError])) = [(500, ''error'')]"
    using failure_answered_once [where r = "post ''/hook/user-prompt-submit'' [StreamError]"
        and rt = UserPromptSubmit
        and cs = "[]" and tm = "[]" and ds = "[]" and t = StreamError and rest = "[]"
        and parse = exampleParse and cbs = throwingCallbacks and rs = "[]"]
    by (simp add: route_of_def post_def)
  have c: "responses (handleRequest exampleParse throwingCallbacks
        (post ''/hook/session-start'' [Chunk ''{\"session_id\":\"abc\"}'', EndOfBody]))
      = [(500, ''error'')]"
    using thr failure_answered_once [where r = "post ''/hook/session-start''
                         [Chunk ''{\"session_id\":\"abc\"}'', EndOfBody]"
        and rt = SessionStart
        and cs = "[''{\"session_id\":\"abc\"}'']" and tm = "[]" and ds = "[]"
        and t = EndOfBody and rest = "[]"
        and parse = exampleParse and cbs = throwingCallbacks and rs = "[]"]
    by (simp add: route_of_def post_def)
  have d: "responses (handleRequest exampleParse throwingCallbacks
        (post ''/hook/session-start''
           [TimerFired, Chunk ''{\"session_id\":\"abc\"}'', EndOfBody])) = [(408, ''timeout'')]"
    using thr failure_answered_once [where r = "post ''/hook/session-start''
                         [TimerFired, Chunk ''{\"session_id\":\"abc\"}'', EndOfBody]"
        and rt = SessionStart
        and cs = "[]" and tm = "[TimerFired]" and ds = "[''{\"session_id\":\"abc\"}'']"
        and t = EndOfBody and rest = "[]"
        and parse = exampleParse and cbs = throwingCallbacks and rs = "[]"]
    by (simp add: route_of_def post_def)
  show ?thesis
    using a b c d by simp
qed

text \<open>
  Claim C8. A request whose method and path are not one of the three pairs POST
  \<open>/hook/user-prompt-submit\<close>, POST \<open>/hook/stop\<close>, POST \<open>/hook/session-start\<close> is
  answered 404 and nothing else: no chunk of its body is read and no callback is
  invoked. A request that is one of the three pairs is never answered 404.
\<close>

theorem unrecognized_request_404:
  "((req_method r, url r) \<notin>
       {(''POST'', ''/hook/user-prompt-submit''), (''POST'', ''/hook/stop''),
        (''POST'', ''/hook/session-start'')} \<longrightarrow>
      responses (handleRequest parse cbs r) = [(404, ''not found'')]
      \<and> calls (handleRequest parse cbs r) = []
      \<and> drained (handleRequest parse cbs r) = 0
      \<and> chunks (handleRequest parse cbs r) = []
      \<and> uncaught (handleRequest parse cbs r) = None)
   \<and> ((req_method r, url r) \<in>
       {(''POST'', ''/hook/user-prompt-submit''), (''POST'', ''/hook/stop''),
        (''POST'', ''/hook/session-start'')} \<longrightarrow>
      (\<forall>x \<in> set (responses (handleRequest parse cbs r)). fst x \<noteq> 404))"
proof -
  have a: "(req_method r, url r) \<notin>
       {(''POST'', ''/hook/user-prompt-submit''), (''POST'', ''/hook/stop''),
        (''POST'', ''/hook/session-start'')} \<Longrightarrow>
       handleRequest parse cbs r = start NotFound"
  proof -
    assume "(req_method r, url r) \<notin>
       {(''POST'', ''/hook/user-prompt-submit''), (''POST'', ''/hook/stop''),
        (''POST'', ''/hook/session-start'')}"
    then have rt: "route_of (req_method r) (url r) = NotFound"
      by (auto simp: route_of_def)
    have "phase (start NotFound) = Finished \<and> \<not> timer (start NotFound)"
      by (simp add: start_def initial_def handler_defs)
    then show ?thesis
      by (simp add: handleRequest_def rt run_finished)
  qed
  have b: "(req_method r, url r) \<in>
       {(''POST'', ''/hook/user-prompt-submit''), (''POST'', ''/hook/stop''),
        (''POST'', ''/hook/session-start'')} \<Longrightarrow>
       route_of (req_method r) (url r) \<noteq> NotFound"
    by (auto simp: route_of_def)
  show ?thesis
    using a b requestInv_handle [of r parse cbs]
    by (auto simp: requestInv_def start_def initial_def handler_defs)
qed

theorem unrecognized_request_404_witness:
  "responses (handleRequest exampleParse sessionOnly
      \<lparr> req_method = ''GET'', url = ''/hook/session-start'',
        events = [Chunk ''{\"session_id\":\"abc\"}'', EndOfBody] \<rparr>) = [(404, ''not found'')]
   \<and> calls (handleRequest exampleParse sessionOnly
      \<lparr> req_method = ''GET'', url = ''/hook/session-start'',
        events = [Chunk ''{\"session_id\":\"abc\"}'', EndOfBody] \<rparr>) = []
   \<and> drained (handleRequest exampleParse sessionOnly
      \<lparr> req_method = ''GET'', url = ''/hook/session-start'',
        events = [Chunk ''{\"session_id\":\"abc\"}'', EndOfBody] \<rparr>) = 0
   \<and> responses (handleRequest exampleParse sessionOnly
        (post ''/unknown'' [Chunk ''{\"session_id\":\"abc\"}'', EndOfBody]))
      = [(404, ''not found'')]
   \<and> (404, ''not found'') \<notin> set (responses (handleRequest exampleParse sessionOnly
        (post ''/hook/session-start'' [Chunk ''{\"session_id\":\"abc\"}'', EndOfBody])))"
  using unrecognized_request_404 [where r = "\<lparr> req_method = ''GET'', url = ''/hook/session-start'',
                          events = [Chunk ''{\"session_id\":\"abc\"}'', EndOfBody] \<rparr>"
      and parse = exampleParse and cbs = sessionOnly]
    unrecognized_request_404 [where r = "post ''/unknown'' [Chunk ''{\"session_id\":\"abc\"}'', EndOfBody]"
      and parse = exampleParse and cbs = sessionOnly]
    unrecognized_request_404 [where r = "post ''/hook/session-start'' [Chunk ''{\"session_id\":\"abc\"}'', EndOfBody]"
      and parse = exampleParse and cbs = sessionOnly]
  by (auto simp: post_def)

end
